theory Spec2Isabelle
  imports Complex_Main
begin

section \<open>Python values\<close>

text \<open>
  The exceptions the modelled code can raise. \<open>RuntimeError\<close> carries its message.
\<close>

datatype error =
    TypeError
  | ValueError
  | OverflowError
  | ZeroDivisionError
  | AttributeError
  | NameError
  | RuntimeError string
  | FileExistsError
  | FileNotFoundError
  | NotADirectoryError

text \<open>
  A Python number as the code meets it (the backend reports doubles, the interval and the
  start time are numbers given by the caller). A finite value is the real it denotes;
  the rounding and the overflow of binary floating point are not modelled, and an
  integer \<open>n\<close> is \<open>PyFinite (of_int n)\<close>. Infinities and NaN are kept, since the
  conversions of the code behave differently on them.
\<close>

datatype pyfloat = PyFinite real | PyInf | PyNegInf | PyNaN

text \<open>\<open>x * y\<close> on Python floats.\<close>

fun py_mul :: "pyfloat \<Rightarrow> pyfloat \<Rightarrow> pyfloat" where
  "py_mul PyNaN y = PyNaN"
| "py_mul x PyNaN = PyNaN"
| "py_mul (PyFinite a) (PyFinite b) = PyFinite (a * b)"
| "py_mul (PyFinite a) PyInf = (if 0 < a then PyInf else if a < 0 then PyNegInf else PyNaN)"
| "py_mul (PyFinite a) PyNegInf = (if 0 < a then PyNegInf else if a < 0 then PyInf else PyNaN)"
| "py_mul PyInf (PyFinite b) = (if 0 < b then PyInf else if b < 0 then PyNegInf else PyNaN)"
| "py_mul PyNegInf (PyFinite b) = (if 0 < b then PyNegInf else if b < 0 then PyInf else PyNaN)"
| "py_mul PyInf PyInf = PyInf"
| "py_mul PyInf PyNegInf = PyNegInf"
| "py_mul PyNegInf PyInf = PyNegInf"
| "py_mul PyNegInf PyNegInf = PyInf"

text \<open>\<open>x + n\<close> for a float \<open>x\<close> and an integer \<open>n\<close>.\<close>

fun py_add_int :: "pyfloat \<Rightarrow> int \<Rightarrow> pyfloat" where
  "py_add_int (PyFinite a) n = PyFinite (a + of_int n)"
| "py_add_int x n = x"

text \<open>\<open>n / x\<close> for an integer \<open>n\<close> and a float \<open>x\<close>: a zero divisor raises.\<close>

fun py_truediv :: "int \<Rightarrow> pyfloat \<Rightarrow> error + pyfloat" where
  "py_truediv n (PyFinite b) =
     (if b = 0 then Inl ZeroDivisionError else Inr (PyFinite (of_int n / b)))"
| "py_truediv n PyInf = Inr (PyFinite 0)"
| "py_truediv n PyNegInf = Inr (PyFinite 0)"
| "py_truediv n PyNaN = Inr PyNaN"

text \<open>\<open>x > 0\<close>: every comparison with NaN is false.\<close>

fun py_gt_zero :: "pyfloat \<Rightarrow> bool" where
  "py_gt_zero (PyFinite a) = (0 < a)"
| "py_gt_zero PyInf = True"
| "py_gt_zero PyNegInf = False"
| "py_gt_zero PyNaN = False"

text \<open>
  \<open>int(x)\<close>: truncation towards zero; NaN raises \<open>ValueError\<close>, an infinity
  \<open>OverflowError\<close>.
\<close>

fun py_int :: "pyfloat \<Rightarrow> error + int" where
  "py_int (PyFinite a) = Inr (if 0 \<le> a then \<lfloor>a\<rfloor> else \<lceil>a\<rceil>)"
| "py_int PyInf = Inl OverflowError"
| "py_int PyNegInf = Inl OverflowError"
| "py_int PyNaN = Inl ValueError"

text \<open>
  \<open>range(start, stop, step)\<close> as the list of its elements: a zero step raises
  \<open>ValueError\<close>, and the number of elements is the one CPython computes.
\<close>

definition py_range_len :: "int \<Rightarrow> int \<Rightarrow> int \<Rightarrow> nat" where
  "py_range_len start stop step =
     (if 0 < step \<and> start < stop then nat ((stop - start - 1) div step + 1)
      else if step < 0 \<and> stop < start then nat ((start - stop - 1) div (- step) + 1)
      else 0)"

definition py_range :: "int \<Rightarrow> int \<Rightarrow> int \<Rightarrow> error + int list" where
  "py_range start stop step =
     (if step = 0 then Inl ValueError
      else Inr (map (\<lambda>k. start + int k * step) [0..<py_range_len start stop step]))"

text \<open>\<open>str(n)\<close> for a natural number, as an f-string formats an index.\<close>

definition digit_char :: "nat \<Rightarrow> char" where
  "digit_char d = ''0123456789'' ! d"

fun py_str :: "nat \<Rightarrow> string" where
  "py_str n = (if n < 10 then [digit_char n] else py_str (n div 10) @ [digit_char (n mod 10)])"

declare py_str.simps [simp del]

section \<open>The decoding backend\<close>

text \<open>
  The properties of \<open>cv2\<close> the code reads and writes, and the calls it makes on a
  capture. The backend is not part of the repository: it is a parameter of the model, a
  record of operations on a handle of type \<open>'b\<close> yielding frames of type \<open>'f\<close>.
  \<open>b_read\<close> returns \<open>Some frame\<close> when \<open>ret\<close> is true and \<open>None\<close> otherwise.
  \<open>isOpened\<close> and \<open>get\<close> are queries and leave the handle as it is.
\<close>

datatype cap_prop =
    CAP_PROP_POS_MSEC
  | CAP_PROP_POS_FRAMES
  | CAP_PROP_FPS
  | CAP_PROP_FRAME_COUNT
  | CAP_PROP_FORMAT
  | CAP_PROP_FOURCC
  | CAP_PROP_FRAME_WIDTH
  | CAP_PROP_FRAME_HEIGHT

record ('b, 'f) backend =
  b_VideoCapture :: "string \<Rightarrow> 'b"
  b_isOpened :: "'b \<Rightarrow> bool"
  b_read :: "'b \<Rightarrow> 'f option \<times> 'b"
  b_set :: "cap_prop \<Rightarrow> pyfloat \<Rightarrow> 'b \<Rightarrow> 'b"
  b_get :: "cap_prop \<Rightarrow> 'b \<Rightarrow> pyfloat"
  b_release :: "'b \<Rightarrow> 'b"

text \<open>
  What the code does to the outside, in order: its backend calls and the error report
  that \<open>__exit__\<close> prints.
\<close>

datatype event =
    CVideoCapture string
  | CIsOpened
  | CRead
  | CSet cap_prop pyfloat
  | CGet cap_prop
  | CRelease
  | Printed error

text \<open>
  The world the code runs in: the trace of events so far, and the part of the file system
  that \<open>save_frames\<close> writes to. A path of the file system is the list of its
  components (what \<open>pathlib.Path\<close> holds), the empty list is the root, which always
  exists; \<open>files\<close> maps the path of an image file to the frame written there, and
  \<open>imwrites\<close> lists the calls of \<open>cv2.imwrite\<close> in order.
\<close>

type_synonym fspath = "string list"

record 'f world =
  trace :: "event list"
  dirs :: "fspath set"
  files :: "fspath \<rightharpoonup> 'f"
  imwrites :: "(fspath \<times> 'f) list"

definition emit :: "event list \<Rightarrow> 'f world \<Rightarrow> 'f world" where
  "emit es W = W\<lparr>trace := trace W @ es\<rparr>"

section \<open>video/video\_meta.py\<close>

record VideoMetaData =
  fps :: pyfloat
  frame_count :: int
  duration :: pyfloat
  format :: pyfloat
  fourcc :: int
  width :: int
  height :: int

text \<open>
  \<open>VideoMetaData.from_path\<close>: opens a capture of its own, reads the properties in the
  order of the source and releases the capture. An exception (a conversion that fails,
  the division by a zero frame rate) leaves at the call that raised it, before
  \<open>release\<close>.
\<close>

definition from_path ::
  "('b, 'f) backend \<Rightarrow> string \<Rightarrow> 'f world \<Rightarrow> (error + VideoMetaData) \<times> 'f world" where
  "from_path B p W =
    (let cap = b_VideoCapture B p;
         W1 = emit [CVideoCapture p] W;
         fps' = b_get B CAP_PROP_FPS cap;
         W2 = emit [CGet CAP_PROP_FPS] W1;
         W3 = emit [CGet CAP_PROP_FRAME_COUNT] W2
     in case py_int (b_get B CAP_PROP_FRAME_COUNT cap) of
          Inl e \<Rightarrow> (Inl e, W3)
        | Inr frame_count' \<Rightarrow>
     (case py_truediv frame_count' fps' of
          Inl e \<Rightarrow> (Inl e, W3)
        | Inr duration' \<Rightarrow>
     (let format' = b_get B CAP_PROP_FORMAT cap;
          W4 = emit [CGet CAP_PROP_FORMAT] W3;
          W5 = emit [CGet CAP_PROP_FOURCC] W4
      in case py_int (b_get B CAP_PROP_FOURCC cap) of
          Inl e \<Rightarrow> (Inl e, W5)
        | Inr fourcc' \<Rightarrow>
     (let W6 = emit [CGet CAP_PROP_FRAME_WIDTH] W5
      in case py_int (b_get B CAP_PROP_FRAME_WIDTH cap) of
          Inl e \<Rightarrow> (Inl e, W6)
        | Inr width' \<Rightarrow>
     (let W7 = emit [CGet CAP_PROP_FRAME_HEIGHT] W6
      in case py_int (b_get B CAP_PROP_FRAME_HEIGHT cap) of
          Inl e \<Rightarrow> (Inl e, W7)
        | Inr height' \<Rightarrow>
          (Inr \<lparr>fps = fps', frame_count = frame_count', duration = duration',
                format = format', fourcc = fourcc', width = width', height = height'\<rparr>,
           emit [CRelease] W7))))))"

section \<open>video/video\_reader.py\<close>

text \<open>
  A path argument is a string or a \<open>pathlib.Path\<close> (given by its string form);
  \<open>str(path)\<close> is that string.
\<close>

datatype pathlike = PStr string | PPath string

fun str_of_path :: "pathlike \<Rightarrow> string" where
  "str_of_path (PStr s) = s"
| "str_of_path (PPath s) = s"

text \<open>
  The reader object. \<open>interval = None\<close> is Python's \<open>None\<close>; \<open>cap = None\<close> is
  the attribute before \<open>__enter__\<close> has set it.
\<close>

record 'b VideoReader =
  path :: string
  interval :: "pyfloat option"
  start_time :: pyfloat
  metadata :: VideoMetaData
  cap :: "'b option"

text \<open>\<open>VideoReader.__init__\<close>: stores its arguments and fetches the metadata.\<close>

definition VideoReader_init ::
  "('b, 'f) backend \<Rightarrow> pathlike \<Rightarrow> pyfloat option \<Rightarrow> pyfloat \<Rightarrow> 'f world
     \<Rightarrow> (error + 'b VideoReader) \<times> 'f world" where
  "VideoReader_init B p iv st W =
    (case from_path B (str_of_path p) W of
       (Inl e, W') \<Rightarrow> (Inl e, W')
     | (Inr m, W') \<Rightarrow>
         (Inr \<lparr>path = str_of_path p, interval = iv, start_time = st, metadata = m,
               cap = None\<rparr>, W'))"

text \<open>
  \<open>VideoReader.__enter__\<close>: opens the capture and seeks to the start time when it is
  positive.
\<close>

definition VideoReader_enter ::
  "('b, 'f) backend \<Rightarrow> 'b VideoReader \<Rightarrow> 'f world \<Rightarrow> 'b VideoReader \<times> 'f world" where
  "VideoReader_enter B r W =
    (let h = b_VideoCapture B (path r);
         W1 = emit [CVideoCapture (path r)] W
     in if py_gt_zero (start_time r)
        then (let ms = py_mul (start_time r) (PyFinite 1000)
              in (r\<lparr>cap := Some (b_set B CAP_PROP_POS_MSEC ms h)\<rparr>,
                  emit [CSet CAP_PROP_POS_MSEC ms] W1))
        else (r\<lparr>cap := Some h\<rparr>, W1))"

text \<open>
  \<open>VideoReader.__exit__\<close>: releases the capture when the attribute is set, prints the
  exception when there is one, and returns \<open>None\<close>; the first component is the truth
  value of what it returns, which tells the \<open>with\<close> statement whether to suppress the
  exception.
\<close>

definition VideoReader_exit ::
  "('b, 'f) backend \<Rightarrow> 'b VideoReader \<Rightarrow> error option \<Rightarrow> 'f world
     \<Rightarrow> bool \<times> 'b VideoReader \<times> 'f world" where
  "VideoReader_exit B r exc W =
    (let (r1, W1) = (case cap r of
                       None \<Rightarrow> (r, W)
                     | Some h \<Rightarrow> (r\<lparr>cap := Some (b_release B h)\<rparr>, emit [CRelease] W));
         W2 = (case exc of None \<Rightarrow> W1 | Some e \<Rightarrow> emit [Printed e] W1)
     in (False, r1, W2))"

text \<open>
  The statement \<open>with VideoReader(...) as reader: body\<close>, for a reader already
  constructed: \<open>__enter__\<close>, the body, then \<open>__exit__\<close> with the exception of the body
  if it raised one; the exception goes on to the caller unless \<open>__exit__\<close> returned a
  true value. \<open>with_leave\<close> is the part after the body: the result is \<open>Inr (Some v)\<close>
  when the body returned \<open>v\<close> and \<open>Inr None\<close> when its exception was suppressed.
  \<open>with_VideoReader_partial\<close> is the statement for a body that may not return.
\<close>

definition with_leave ::
  "('b, 'f) backend \<Rightarrow> (error + 'a) \<times> 'b VideoReader \<times> 'f world
     \<Rightarrow> (error + 'a option) \<times> 'b VideoReader \<times> 'f world" where
  "with_leave B out =
    (case out of
       (res, r2, W2) \<Rightarrow>
         (let exc = (case res of Inl e \<Rightarrow> Some e | Inr v \<Rightarrow> None);
              (suppress, r3, W3) = VideoReader_exit B r2 exc W2
          in (case res of
                Inl e \<Rightarrow> if suppress then Inr None else Inl e
              | Inr v \<Rightarrow> Inr (Some v),
              r3, W3)))"

definition with_VideoReader ::
  "('b, 'f) backend \<Rightarrow> 'b VideoReader
     \<Rightarrow> ('b VideoReader \<Rightarrow> 'f world \<Rightarrow> (error + 'a) \<times> 'b VideoReader \<times> 'f world)
     \<Rightarrow> 'f world \<Rightarrow> (error + 'a option) \<times> 'b VideoReader \<times> 'f world" where
  "with_VideoReader B r body W =
    (let (r1, W1) = VideoReader_enter B r W in with_leave B (body r1 W1))"

definition with_VideoReader_partial ::
  "('b, 'f) backend \<Rightarrow> 'b VideoReader
     \<Rightarrow> ('b VideoReader \<Rightarrow> 'f world \<Rightarrow> ((error + 'a) \<times> 'b VideoReader \<times> 'f world) option)
     \<Rightarrow> 'f world \<Rightarrow> ((error + 'a option) \<times> 'b VideoReader \<times> 'f world) option" where
  "with_VideoReader_partial B r body W =
    (let (r1, W1) = VideoReader_enter B r W in map_option (with_leave B) (body r1 W1))"

text \<open>
  \<open>VideoReader.get_steps\<close>: \<open>int(self.interval * self.metadata.fps)\<close>. There is no
  test for \<open>None\<close>: the product of \<open>None\<close> and a float raises \<open>TypeError\<close>.
\<close>

definition VideoReader_get_steps :: "'b VideoReader \<Rightarrow> error + int" where
  "VideoReader_get_steps r =
     (case interval r of
        None \<Rightarrow> Inl TypeError
      | Some i \<Rightarrow> py_int (py_mul i (fps (metadata r))))"

text \<open>
  The loop of \<open>VideoReader.extract_frames\<close> over the frame indices still to visit: seek,
  read, stop at the first read that fails.
\<close>

fun extract_loop ::
  "('b, 'f) backend \<Rightarrow> int list \<Rightarrow> 'f list \<Rightarrow> 'b \<Rightarrow> 'f world \<Rightarrow> 'f list \<times> 'b \<times> 'f world" where
  "extract_loop B [] frames h W = (frames, h, W)"
| "extract_loop B (frame_id # rest) frames h W =
    (let pos = PyFinite (of_int frame_id);
         h1 = b_set B CAP_PROP_POS_FRAMES pos h;
         W1 = emit [CSet CAP_PROP_POS_FRAMES pos, CRead] W
     in case b_read B h1 of
          (None, h2) \<Rightarrow> (frames, h2, W1)
        | (Some frame, h2) \<Rightarrow> extract_loop B rest (frames @ [frame]) h2 W1)"

text \<open>
  \<open>VideoReader.extract_frames\<close>. The step and the range are computed before the capture
  is touched; the capture is released after the loop.
\<close>

definition VideoReader_extract_frames ::
  "('b, 'f) backend \<Rightarrow> 'b VideoReader \<Rightarrow> 'f world
     \<Rightarrow> (error + 'f list) \<times> 'b VideoReader \<times> 'f world" where
  "VideoReader_extract_frames B r W =
    (case VideoReader_get_steps r of
       Inl e \<Rightarrow> (Inl e, r, W)
     | Inr steps \<Rightarrow>
    (case py_range 0 (frame_count (metadata r)) steps of
       Inl e \<Rightarrow> (Inl e, r, W)
     | Inr ids \<Rightarrow>
    (case cap r of
       None \<Rightarrow> (Inl AttributeError, r, W)
     | Some h \<Rightarrow>
        (let (frames, h', W') = extract_loop B ids [] h W
         in (Inr frames, r\<lparr>cap := Some (b_release B h')\<rparr>, emit [CRelease] W')))))"

text \<open>
  \<open>VideoReader.generator\<close> as the state machine a Python generator is: created, suspended
  at its \<open>yield\<close>, or finished. A pull (\<open>next\<close>) yields a frame, ends the iteration or
  raises.
\<close>

datatype gen_state = GenCreated | GenSuspended | GenFinished

datatype 'v pull = Yield 'v | StopIteration | Raise error

text \<open>From the head of the \<open>while\<close> loop to the \<open>yield\<close> or the end.\<close>

definition generator_loop ::
  "('b, 'f) backend \<Rightarrow> 'b VideoReader \<Rightarrow> 'f world
     \<Rightarrow> 'f pull \<times> gen_state \<times> 'b VideoReader \<times> 'f world" where
  "generator_loop B r W =
    (case cap r of
       None \<Rightarrow> (Raise AttributeError, GenFinished, r, W)
     | Some h \<Rightarrow>
        if \<not> b_isOpened B h then (StopIteration, GenFinished, r, emit [CIsOpened] W)
        else (case b_read B h of
                (None, h') \<Rightarrow>
                  (StopIteration, GenFinished, r\<lparr>cap := Some h'\<rparr>, emit [CIsOpened, CRead] W)
              | (Some frame, h') \<Rightarrow>
                  (Yield frame, GenSuspended, r\<lparr>cap := Some h'\<rparr>, emit [CIsOpened, CRead] W)))"

text \<open>
  One pull. A suspended generator first runs the code after the \<open>yield\<close>: nothing when
  the interval is \<open>None\<close>, otherwise the step and the seek to the position plus the
  step; then the loop goes on.
\<close>

definition VideoReader_generator_next ::
  "('b, 'f) backend \<Rightarrow> 'b VideoReader \<Rightarrow> gen_state \<Rightarrow> 'f world
     \<Rightarrow> 'f pull \<times> gen_state \<times> 'b VideoReader \<times> 'f world" where
  "VideoReader_generator_next B r g W =
    (case g of
       GenFinished \<Rightarrow> (StopIteration, GenFinished, r, W)
     | GenCreated \<Rightarrow> generator_loop B r W
     | GenSuspended \<Rightarrow>
        (case interval r of
           None \<Rightarrow> generator_loop B r W
         | Some i \<Rightarrow>
            (case VideoReader_get_steps r of
               Inl e \<Rightarrow> (Raise e, GenFinished, r, W)
             | Inr steps \<Rightarrow>
                (case cap r of
                   None \<Rightarrow> (Raise AttributeError, GenFinished, r, W)
                 | Some h \<Rightarrow>
                    (let pos = py_add_int (b_get B CAP_PROP_POS_FRAMES h) steps;
                         h1 = b_set B CAP_PROP_POS_FRAMES pos h
                     in generator_loop B (r\<lparr>cap := Some h1\<rparr>)
                          (emit [CGet CAP_PROP_POS_FRAMES, CSet CAP_PROP_POS_FRAMES pos] W))))))"



section \<open>video/video.py\<close>

text \<open>
  The file system calls of \<open>save_frames\<close>. \<open>os.mkdir\<close> creates one directory and
  fails when the path exists or its parent is missing or is a file;
  \<open>Path.mkdir(parents, exist_ok)\<close> is pathlib's wrapper around it; \<open>cv2.imwrite\<close>
  stores the frame under the file name (the encoding is not modelled, and the write is
  taken to succeed).
\<close>

definition is_dir :: "fspath \<Rightarrow> 'f world \<Rightarrow> bool" where
  "is_dir p W = (p = [] \<or> p \<in> dirs W)"

definition os_mkdir :: "fspath \<Rightarrow> 'f world \<Rightarrow> error + 'f world" where
  "os_mkdir p W =
    (if is_dir p W \<or> p \<in> dom (files W) then Inl FileExistsError
     else if butlast p \<in> dom (files W) then Inl NotADirectoryError
     else if \<not> is_dir (butlast p) W then Inl FileNotFoundError
     else Inr (W\<lparr>dirs := insert p (dirs W)\<rparr>))"

text \<open>
  The last step of \<open>Path.mkdir\<close>, with \<open>parents\<close> false: an error of \<open>os.mkdir\<close>
  other than a missing parent is ignored when \<open>exist_ok\<close> holds and the path is a
  directory.
\<close>

definition mkdir_leaf :: "bool \<Rightarrow> fspath \<Rightarrow> 'f world \<Rightarrow> error + 'f world" where
  "mkdir_leaf exist_ok p W =
    (case os_mkdir p W of
       Inr W' \<Rightarrow> Inr W'
     | Inl e \<Rightarrow>
         if e = FileNotFoundError then Inl e
         else if \<not> exist_ok \<or> \<not> is_dir p W then Inl e
         else Inr W)"

function Path_mkdir :: "bool \<Rightarrow> bool \<Rightarrow> fspath \<Rightarrow> 'f world \<Rightarrow> error + 'f world" where
  "Path_mkdir parents exist_ok p W =
    (case os_mkdir p W of
       Inr W' \<Rightarrow> Inr W'
     | Inl e \<Rightarrow>
         if e = FileNotFoundError then
           (if \<not> parents \<or> p = [] then Inl e
            else (case Path_mkdir True True (butlast p) W of
                    Inl e' \<Rightarrow> Inl e'
                  | Inr W1 \<Rightarrow> mkdir_leaf exist_ok p W1))
         else if \<not> exist_ok \<or> \<not> is_dir p W then Inl e
         else Inr W)"
  by pat_completeness auto
termination
  by (relation "measure (\<lambda>(parents, exist_ok, p, W). length p)") auto

declare Path_mkdir.simps [simp del]

definition imwrite :: "fspath \<Rightarrow> 'f \<Rightarrow> 'f world \<Rightarrow> 'f world" where
  "imwrite filename frame W =
     W\<lparr>files := (files W)(filename \<mapsto> frame), imwrites := imwrites W @ [(filename, frame)]\<rparr>"

text \<open>\<open>output_dir / f"{index}.{img_format}"\<close>\<close>

definition frame_filename :: "fspath \<Rightarrow> string \<Rightarrow> nat \<Rightarrow> fspath" where
  "frame_filename output_dir img_format index = output_dir @ [py_str index @ ''.'' @ img_format]"

text \<open>
  The collection. Its constructor takes one path or a list of paths.
\<close>

datatype paths_arg = OnePath pathlike | PathList "pathlike list"

record Video =
  paths :: "pathlike list"

definition Video_init :: "paths_arg \<Rightarrow> Video" where
  "Video_init a = (case a of OnePath p \<Rightarrow> \<lparr>paths = [p]\<rparr> | PathList ps \<Rightarrow> \<lparr>paths = ps\<rparr>)"

text \<open>
  The inner loop of \<open>Video.save_frames\<close>: \<open>enumerate\<close> over the generator, one image
  file per frame pulled. \<open>index\<close> is the counter of \<open>enumerate\<close>.
\<close>

partial_function (option) save_loop ::
  "('b, 'f) backend \<Rightarrow> fspath \<Rightarrow> string \<Rightarrow> 'b VideoReader \<Rightarrow> gen_state \<Rightarrow> nat \<Rightarrow> 'f world
     \<Rightarrow> ((error + unit) \<times> 'b VideoReader \<times> 'f world) option" where
  "save_loop B output_dir img_format r g index W =
    (case VideoReader_generator_next B r g W of
       (Yield frame, g', r', W') \<Rightarrow>
         save_loop B output_dir img_format r' g' (Suc index)
           (imwrite (frame_filename output_dir img_format index) frame W')
     | (StopIteration, g', r', W') \<Rightarrow> Some (Inr (), r', W')
     | (Raise e, g', r', W') \<Rightarrow> Some (Inl e, r', W'))"

declare save_loop.simps [code]

text \<open>The loop of \<open>Video.save_frames\<close> over the paths: a reader and a session for each.\<close>

fun save_paths ::
  "('b, 'f) backend \<Rightarrow> pathlike list \<Rightarrow> fspath \<Rightarrow> pyfloat option \<Rightarrow> string \<Rightarrow> 'f world
     \<Rightarrow> ((error + unit) \<times> 'f world) option" where
  "save_paths B [] output_dir iv img_format W = Some (Inr (), W)"
| "save_paths B (p # ps) output_dir iv img_format W =
    (case VideoReader_init B p iv (PyFinite 0) W of
       (Inl e, W1) \<Rightarrow> Some (Inl e, W1)
     | (Inr r, W1) \<Rightarrow>
        (case with_VideoReader_partial B r
                (\<lambda>r' W'. save_loop B output_dir img_format r' GenCreated 0 W') W1 of
           None \<Rightarrow> None
         | Some (Inl e, r2, W2) \<Rightarrow> Some (Inl e, W2)
         | Some (Inr u, r2, W2) \<Rightarrow> save_paths B ps output_dir iv img_format W2))"

definition Video_save_frames ::
  "('b, 'f) backend \<Rightarrow> Video \<Rightarrow> fspath \<Rightarrow> pyfloat option \<Rightarrow> string \<Rightarrow> 'f world
     \<Rightarrow> ((error + unit) \<times> 'f world) option" where
  "Video_save_frames B v output_dir iv img_format W =
    (case Path_mkdir True True output_dir W of
       Inl e \<Rightarrow> Some (Inl e, W)
     | Inr W1 \<Rightarrow> save_paths B (paths v) output_dir iv img_format W1)"

text \<open>
  The loop of \<open>Video.extract_frames\<close>. \<open>frames\<close> is the local variable of that name:
  unbound at first, and left as it was if a session ended with its exception
  suppressed.
\<close>

fun extract_paths ::
  "('b, 'f) backend \<Rightarrow> pathlike list \<Rightarrow> pyfloat option \<Rightarrow> 'f list option
     \<Rightarrow> (pathlike \<times> 'f list) list \<Rightarrow> 'f world
     \<Rightarrow> (error + (pathlike \<times> 'f list) list) \<times> 'f world" where
  "extract_paths B [] iv frames result W = (Inr result, W)"
| "extract_paths B (p # ps) iv frames result W =
    (case VideoReader_init B p iv (PyFinite 0) W of
       (Inl e, W1) \<Rightarrow> (Inl e, W1)
     | (Inr r, W1) \<Rightarrow>
        (case with_VideoReader B r (VideoReader_extract_frames B) W1 of
           (Inl e, r2, W2) \<Rightarrow> (Inl e, W2)
         | (Inr fo, r2, W2) \<Rightarrow>
            (case (case fo of Some fs \<Rightarrow> Some fs | None \<Rightarrow> frames) of
               None \<Rightarrow> (Inl NameError, W2)
             | Some fs \<Rightarrow> extract_paths B ps iv (Some fs) (result @ [(p, fs)]) W2)))"

definition Video_extract_frames ::
  "('b, 'f) backend \<Rightarrow> Video \<Rightarrow> pyfloat option \<Rightarrow> 'f world
     \<Rightarrow> (error + (pathlike \<times> 'f list) list) \<times> 'f world" where
  "Video_extract_frames B v iv W = extract_paths B (paths v) iv None [] W"

section \<open>io/video.py and io/video\_reader.py\<close>

text \<open>
  The single-file classes of the \<open>io\<close> package. \<open>Video.__init__\<close> tests that the
  path exists before it fetches the metadata; \<open>os.path.exists\<close> and the metadata
  fetch of the package (its module is not among the sources) are parameters.
\<close>

record io_Video =
  io_path :: string
  io_metadata :: VideoMetaData

definition io_Video_init ::
  "(string \<Rightarrow> bool) \<Rightarrow> (string \<Rightarrow> 'f world \<Rightarrow> (error + VideoMetaData) \<times> 'f world)
     \<Rightarrow> pathlike \<Rightarrow> 'f world \<Rightarrow> (error + io_Video) \<times> 'f world" where
  "io_Video_init os_path_exists meta_from_path p W =
    (let path' = str_of_path p
     in if \<not> os_path_exists path' then (Inl (RuntimeError (''File not found: '' @ path')), W)
        else (case meta_from_path path' W of
                (Inl e, W') \<Rightarrow> (Inl e, W')
              | (Inr m, W') \<Rightarrow> (Inr \<lparr>io_path = path', io_metadata = m\<rparr>, W')))"

text \<open>\<open>Video._get_steps\<close>\<close>

definition io_Video_get_steps :: "io_Video \<Rightarrow> pyfloat option \<Rightarrow> error + int" where
  "io_Video_get_steps v stepsize =
     (case stepsize of
        None \<Rightarrow> Inr 1
      | Some s \<Rightarrow> py_int (py_mul s (fps (io_metadata v))))"

text \<open>
  The reader of the \<open>io\<close> package is its own iterator. \<open>__next__\<close> returns the frame
  when the read succeeded; otherwise the method falls off its end and returns Python's
  \<open>None\<close>, here \<open>Yield None\<close>.
\<close>

record 'b io_VideoReader =
  io_reader_path :: string
  io_cap :: "'b option"

definition io_VideoReader_enter ::
  "('b, 'f) backend \<Rightarrow> 'b io_VideoReader \<Rightarrow> 'f world \<Rightarrow> 'b io_VideoReader \<times> 'f world" where
  "io_VideoReader_enter B r W =
     (r\<lparr>io_cap := Some (b_VideoCapture B (io_reader_path r))\<rparr>,
      emit [CVideoCapture (io_reader_path r)] W)"

definition io_VideoReader_next ::
  "('b, 'f) backend \<Rightarrow> 'b io_VideoReader \<Rightarrow> 'f world
     \<Rightarrow> 'f option pull \<times> 'b io_VideoReader \<times> 'f world" where
  "io_VideoReader_next B r W =
    (case io_cap r of
       None \<Rightarrow> (Raise AttributeError, r, W)
     | Some h \<Rightarrow>
        (case b_read B h of
           (Some frame, h') \<Rightarrow> (Yield (Some frame), r\<lparr>io_cap := Some h'\<rparr>, emit [CRead] W)
         | (None, h') \<Rightarrow> (Yield None, r\<lparr>io_cap := Some h'\<rparr>, emit [CRead] W)))"

section \<open>A reference backend\<close>

text \<open>
  A backend to run the model on: a clip is a list of frames with a position, the frame
  rate it reports and whether the capture is open. A read past the end fails; a seek to
  a finite frame position moves there.
\<close>

record 'f clip =
  clip_frames :: "'f list"
  clip_pos :: int
  clip_opened :: bool
  clip_fps :: pyfloat

definition clip_read :: "'f clip \<Rightarrow> 'f option \<times> 'f clip" where
  "clip_read c =
    (if clip_opened c \<and> 0 \<le> clip_pos c \<and> clip_pos c < int (length (clip_frames c))
     then (Some (clip_frames c ! nat (clip_pos c)), c\<lparr>clip_pos := clip_pos c + 1\<rparr>)
     else (None, c))"

fun clip_set :: "cap_prop \<Rightarrow> pyfloat \<Rightarrow> 'f clip \<Rightarrow> 'f clip" where
  "clip_set CAP_PROP_POS_FRAMES (PyFinite x) c = c\<lparr>clip_pos := \<lfloor>x\<rfloor>\<rparr>"
| "clip_set p v c = c"

fun clip_get :: "cap_prop \<Rightarrow> 'f clip \<Rightarrow> pyfloat" where
  "clip_get CAP_PROP_POS_FRAMES c = PyFinite (of_int (clip_pos c))"
| "clip_get CAP_PROP_FPS c = clip_fps c"
| "clip_get CAP_PROP_FRAME_COUNT c = PyFinite (of_int (int (length (clip_frames c))))"
| "clip_get p c = PyFinite 0"

definition clip_backend :: "(string \<Rightarrow> 'f clip) \<Rightarrow> ('f clip, 'f) backend" where
  "clip_backend store =
     \<lparr>b_VideoCapture = store, b_isOpened = clip_opened, b_read = clip_read,
      b_set = clip_set, b_get = clip_get,
      b_release = (\<lambda>c. c\<lparr>clip_opened := False\<rparr>)\<rparr>"

text \<open>
  Sample data: a clip of the three frames 10, 11, 12 (frames are numbers here) under
  every path, an empty world, and readers over it.
\<close>

definition clip3 :: "pyfloat \<Rightarrow> nat clip" where
  "clip3 rate = \<lparr>clip_frames = [10, 11, 12], clip_pos = 0, clip_opened = True, clip_fps = rate\<rparr>"

definition no_clip :: "nat clip" where
  "no_clip = \<lparr>clip_frames = [], clip_pos = 0, clip_opened = False, clip_fps = PyFinite 0\<rparr>"

definition world0 :: "nat world" where
  "world0 = \<lparr>trace = [], dirs = {}, files = Map.empty, imwrites = []\<rparr>"

definition meta3 :: "pyfloat \<Rightarrow> VideoMetaData" where
  "meta3 rate =
     \<lparr>fps = rate, frame_count = 3, duration = PyFinite 3, format = PyFinite 0, fourcc = 0,
      width = 0, height = 0\<rparr>"

definition reader3 :: "pyfloat option \<Rightarrow> pyfloat \<Rightarrow> nat clip VideoReader" where
  "reader3 iv rate =
     \<lparr>path = ''a.mp4'', interval = iv, start_time = PyFinite 0, metadata = meta3 rate,
      cap = Some (clip3 rate)\<rparr>"

text \<open>The two backend calls of one visit of \<open>extract_frames\<close> to a frame index.\<close>

definition visit_events :: "int \<Rightarrow> event list" where
  "visit_events i = [CSet CAP_PROP_POS_FRAMES (PyFinite (of_int i)), CRead]"






section \<open>Basic facts\<close>

lemmas demo_defs =
  reader3_def meta3_def clip3_def no_clip_def clip_backend_def clip_read_def world0_def emit_def

lemmas reader_defs =
  VideoReader_generator_next_def generator_loop_def VideoReader_get_steps_def
  VideoReader_extract_frames_def VideoReader_init_def from_path_def VideoReader_enter_def
  VideoReader_exit_def with_leave_def with_VideoReader_def with_VideoReader_partial_def
  py_range_def py_range_len_def



section \<open>The step (C1, C3)\<close>




text \<open>
  With the interval \<open>None\<close>, \<open>VideoReader.get_steps\<close> raises \<open>TypeError\<close> for every
  reader, and so does \<open>VideoReader.extract_frames\<close>, before it touches the backend.
\<close>

lemma get_steps_None:
  "interval r = None \<Longrightarrow>
   VideoReader_get_steps r = Inl TypeError \<and> VideoReader_extract_frames B r W = (Inl TypeError, r, W)"
  by (simp add: VideoReader_get_steps_def VideoReader_extract_frames_def)

text \<open>
  C3 at a reader with the interval \<open>None\<close> over the three-frame clip: \<open>Video._get_steps\<close>
  of the \<open>io\<close> package returns 1, but \<open>VideoReader.get_steps\<close> raises \<open>TypeError\<close>,
  and batch extraction raises it too, visiting no frame.
\<close>

theorem get_steps_none_interval_raises:
  "VideoReader_get_steps (reader3 None (PyFinite 30)) = Inl TypeError \<and>
   VideoReader_extract_frames (clip_backend (\<lambda>p. clip3 (PyFinite 30))) (reader3 None (PyFinite 30))
       world0
     = (Inl TypeError, reader3 None (PyFinite 30), world0) \<and>
   io_Video_get_steps \<lparr>io_path = ''a.mp4'', io_metadata = meta3 (PyFinite 30)\<rparr> None = Inr 1"
  by (simp add: VideoReader_get_steps_def VideoReader_extract_frames_def io_Video_get_steps_def
      reader3_def)

section \<open>A frame rate of zero or not finite (C2)\<close>








section \<open>Batch extraction (C4)\<close>










section \<open>A read that fails (C5)\<close>

text \<open>
  In \<open>video/video_reader.py\<close> a failed read is the end and not an error: the loop of
  \<open>extract_frames\<close> returns the frames it has, and the generator ends and stays ended.
\<close>

lemma extract_loop_stops_at_failed_read:
  assumes "b_read B (b_set B CAP_PROP_POS_FRAMES (PyFinite (of_int i)) h) = (None, h')"
  shows "extract_loop B (i # ids) frames h W = (frames, h', emit (visit_events i) W)"
  using assms by (simp add: Let_def visit_events_def)

lemma generator_ends_at_failed_read:
  assumes "cap r = Some h" "b_isOpened B h" "b_read B h = (None, h')"
  shows "VideoReader_generator_next B r GenCreated W =
           (StopIteration, GenFinished, r\<lparr>cap := Some h'\<rparr>, emit [CIsOpened, CRead] W)"
    and "VideoReader_generator_next B r' GenFinished W' = (StopIteration, GenFinished, r', W')"
  using assms by (simp_all add: VideoReader_generator_next_def generator_loop_def)

text \<open>The \<open>__next__\<close> of the \<open>io\<close> reader never ends the iteration, whatever the backend.\<close>

lemma io_next_never_stops: "fst (io_VideoReader_next B r W) \<noteq> StopIteration"
  by (auto simp: io_VideoReader_next_def split: option.splits prod.splits)

text \<open>
  C5 at the \<open>io\<close> reader positioned at the end of the three-frame clip: the read fails,
  and \<open>__next__\<close> returns \<open>None\<close> as if it were a frame instead of ending the
  iteration.
\<close>

theorem io_next_returns_none_at_end:
  "io_VideoReader_next (clip_backend (\<lambda>p. clip3 (PyFinite 30)))
     \<lparr>io_reader_path = ''a.mp4'', io_cap = Some ((clip3 (PyFinite 30))\<lparr>clip_pos := 3\<rparr>)\<rparr> world0
   = (Yield None,
      \<lparr>io_reader_path = ''a.mp4'', io_cap = Some ((clip3 (PyFinite 30))\<lparr>clip_pos := 3\<rparr>)\<rparr>,
      world0\<lparr>trace := [CRead]\<rparr>)"
  by (simp add: io_VideoReader_next_def demo_defs)

section \<open>The pulls of the generator (C6)\<close>

text \<open>
  C6. For a reader whose capture is set: the first pull, on an open capture, reads at the
  position the capture is at, without a seek. A later pull with an interval that is not
  \<open>None\<close> and a step that computes first seeks to the position the backend reports
  plus the step, and reads there if the capture is open; with the interval \<open>None\<close> it
  reads with no seek. In each case a read that gives a frame yields it, and a read that
  fails ends the iteration.
\<close>

theorem generator_pull_positions:
  assumes "cap r = Some h"
  shows "(b_isOpened B h \<longrightarrow>
            VideoReader_generator_next B r GenCreated W =
              (case b_read B h of
                 (None, h') \<Rightarrow>
                   (StopIteration, GenFinished, r\<lparr>cap := Some h'\<rparr>, emit [CIsOpened, CRead] W)
               | (Some frame, h') \<Rightarrow>
                   (Yield frame, GenSuspended, r\<lparr>cap := Some h'\<rparr>, emit [CIsOpened, CRead] W))) \<and>
         (\<forall>i step. interval r = Some i \<and> VideoReader_get_steps r = Inr step \<longrightarrow>
            (let pos = py_add_int (b_get B CAP_PROP_POS_FRAMES h) step;
                 h1 = b_set B CAP_PROP_POS_FRAMES pos h;
                 W1 = emit [CGet CAP_PROP_POS_FRAMES, CSet CAP_PROP_POS_FRAMES pos,
                            CIsOpened, CRead] W
             in b_isOpened B h1 \<longrightarrow>
                VideoReader_generator_next B r GenSuspended W =
                  (case b_read B h1 of
                     (None, h') \<Rightarrow> (StopIteration, GenFinished, r\<lparr>cap := Some h'\<rparr>, W1)
                   | (Some frame, h') \<Rightarrow> (Yield frame, GenSuspended, r\<lparr>cap := Some h'\<rparr>, W1)))) \<and>
         (interval r = None \<and> b_isOpened B h \<longrightarrow>
            VideoReader_generator_next B r GenSuspended W =
              (case b_read B h of
                 (None, h') \<Rightarrow>
                   (StopIteration, GenFinished, r\<lparr>cap := Some h'\<rparr>, emit [CIsOpened, CRead] W)
               | (Some frame, h') \<Rightarrow>
                   (Yield frame, GenSuspended, r\<lparr>cap := Some h'\<rparr>, emit [CIsOpened, CRead] W)))"
  using assms
  by (auto simp: VideoReader_generator_next_def generator_loop_def Let_def emit_def
      split: prod.splits option.splits)

text \<open>
  Over the three-frame clip at position 0: the first pull yields frame 10; a later pull
  with a step of 1 seeks to position 1 and yields frame 11; a later pull with the interval
  \<open>None\<close> reads at position 0.
\<close>

theorem generator_pull_positions_witness:
  "VideoReader_generator_next (clip_backend (\<lambda>p. clip3 (PyFinite 1)))
       (reader3 (Some (PyFinite 1)) (PyFinite 1)) GenCreated world0
     = (Yield 10, GenSuspended,
        (reader3 (Some (PyFinite 1)) (PyFinite 1))\<lparr>cap := Some ((clip3 (PyFinite 1))\<lparr>clip_pos := 1\<rparr>)\<rparr>,
        world0\<lparr>trace := [CIsOpened, CRead]\<rparr>) \<and>
   VideoReader_generator_next (clip_backend (\<lambda>p. clip3 (PyFinite 1)))
       (reader3 (Some (PyFinite 1)) (PyFinite 1)) GenSuspended world0
     = (Yield 11, GenSuspended,
        (reader3 (Some (PyFinite 1)) (PyFinite 1))\<lparr>cap := Some ((clip3 (PyFinite 1))\<lparr>clip_pos := 2\<rparr>)\<rparr>,
        world0\<lparr>trace := [CGet CAP_PROP_POS_FRAMES, CSet CAP_PROP_POS_FRAMES (PyFinite 1),
                          CIsOpened, CRead]\<rparr>) \<and>
   VideoReader_generator_next (clip_backend (\<lambda>p. clip3 (PyFinite 1)))
       (reader3 None (PyFinite 1)) GenSuspended world0
     = (Yield 10, GenSuspended,
        (reader3 None (PyFinite 1))\<lparr>cap := Some ((clip3 (PyFinite 1))\<lparr>clip_pos := 1\<rparr>)\<rparr>,
        world0\<lparr>trace := [CIsOpened, CRead]\<rparr>)"
  using generator_pull_positions [of "reader3 (Some (PyFinite 1)) (PyFinite 1)" "clip3 (PyFinite 1)"
          "clip_backend (\<lambda>p. clip3 (PyFinite 1))" world0]
        generator_pull_positions [of "reader3 None (PyFinite 1)" "clip3 (PyFinite 1)"
          "clip_backend (\<lambda>p. clip3 (PyFinite 1))" world0]
  by (simp add: VideoReader_get_steps_def demo_defs Let_def)

section \<open>Construction on a missing file (C7)\<close>

text \<open>
  \<open>Video.__init__\<close> of the \<open>io\<close> package fails on a path that does not exist before
  anything else happens: the world is unchanged.
\<close>

lemma io_Video_init_missing:
  "\<not> ex (str_of_path p) \<Longrightarrow>
   io_Video_init ex meta p W = (Inl (RuntimeError (''File not found: '' @ str_of_path p)), W)"
  by (simp add: io_Video_init_def)

text \<open>
  \<open>VideoReader.__init__\<close> has no such test: whatever the path, its first act is to open
  a capture on it.
\<close>

lemma VideoReader_init_opens:
  "\<exists>es. trace (snd (VideoReader_init B p iv st W)) = trace W @ CVideoCapture (str_of_path p) # es"
  by (auto simp: VideoReader_init_def from_path_def Let_def emit_def split: sum.splits prod.splits)

text \<open>
  C7 at \<open>VideoReader('missing.mp4')\<close>, over a backend that answers a missing file as
  \<open>cv2\<close> does (a capture that is not open and reports 0 for every property): the
  constructor opens a capture, queries the frame rate and the frame count, and fails
  with \<open>ZeroDivisionError\<close> on the duration; it raises no file-not-found error.
\<close>

theorem VideoReader_init_missing_file:
  "VideoReader_init (clip_backend (\<lambda>p. no_clip)) (PStr ''missing.mp4'') (Some (PyFinite 1))
     (PyFinite 0) world0
   = (Inl ZeroDivisionError,
      world0\<lparr>trace := [CVideoCapture ''missing.mp4'', CGet CAP_PROP_FPS,
                        CGet CAP_PROP_FRAME_COUNT]\<rparr>)"
  by (simp add: reader_defs demo_defs Let_def)

section \<open>Release of the capture (C8)\<close>

lemma exit_releases:
  "cap r2 = Some h \<Longrightarrow>
   \<exists>W3 es. VideoReader_exit B r2 exc W2 = (False, r2\<lparr>cap := Some (b_release B h)\<rparr>, W3) \<and>
           trace W3 = trace W2 @ CRelease # es"
  by (cases exc) (simp_all add: VideoReader_exit_def emit_def)

lemma with_leave_releases:
  assumes "cap r2 = Some h"
  shows "\<exists>W3 es. with_leave B (res, r2, W2) =
            (case res of Inl e \<Rightarrow> Inl e | Inr v \<Rightarrow> Inr (Some v),
             r2\<lparr>cap := Some (b_release B h)\<rparr>, W3) \<and>
           trace W3 = trace W2 @ CRelease # es"
proof -
  obtain W3 es where
    "VideoReader_exit B r2 (case res of Inl e \<Rightarrow> Some e | Inr v \<Rightarrow> None) W2 =
       (False, r2\<lparr>cap := Some (b_release B h)\<rparr>, W3)"
    and "trace W3 = trace W2 @ CRelease # es"
    using exit_releases [OF assms] by blast
  then show ?thesis by (auto simp: with_leave_def split: sum.splits)
qed

lemma extract_frames_releases:
  "VideoReader_extract_frames B r W = (Inr frames, r', W') \<Longrightarrow>
   (\<exists>h'. cap r' = Some (b_release B h')) \<and> (\<exists>tr. trace W' = tr @ [CRelease])"
  by (auto simp: VideoReader_extract_frames_def emit_def
      split: sum.splits option.splits prod.splits)

text \<open>
  C8. A session \<open>with VideoReader(...) as reader: body\<close>, for any body that returns or
  raises and leaves the \<open>cap\<close> attribute set: in both cases the session releases the
  capture right after the body, and an exception of the body is the result of the
  session (the same holds for the statement over a body that might not have returned). And when \<open>extract_frames\<close> returns its frames (all candidates read, or an
  early stop at a failed read) it has released the capture as its last backend call.
\<close>

theorem session_releases_and_surfaces:
  assumes "VideoReader_enter B r W = (r1, W1)" "body r1 W1 = (res, r2, W2)" "cap r2 = Some h"
  shows "(\<exists>W3 es. with_VideoReader B r body W =
            (case res of Inl e \<Rightarrow> Inl e | Inr v \<Rightarrow> Inr (Some v),
             r2\<lparr>cap := Some (b_release B h)\<rparr>, W3) \<and>
            with_VideoReader_partial B r (\<lambda>r' W'. Some (body r' W')) W =
              Some (case res of Inl e \<Rightarrow> Inl e | Inr v \<Rightarrow> Inr (Some v),
                    r2\<lparr>cap := Some (b_release B h)\<rparr>, W3) \<and>
            trace W3 = trace W2 @ CRelease # es) \<and>
         (\<forall>frames r' W'. VideoReader_extract_frames B r1 W1 = (Inr frames, r', W') \<longrightarrow>
            (\<exists>h'. cap r' = Some (b_release B h')) \<and> (\<exists>tr. trace W' = tr @ [CRelease]))"
  using with_leave_releases [OF assms(3), of B res W2] assms(1,2) extract_frames_releases
  by (simp add: with_VideoReader_def with_VideoReader_partial_def) blast

text \<open>
  A session whose body raises (batch extraction with the interval \<open>None\<close>), and
  one whose body is batch extraction with a step of 2.
\<close>

theorem session_releases_and_surfaces_witness:
  "(\<exists>W3 es. with_VideoReader (clip_backend (\<lambda>p. clip3 (PyFinite 1))) (reader3 None (PyFinite 1))
              (VideoReader_extract_frames (clip_backend (\<lambda>p. clip3 (PyFinite 1)))) world0 =
            (Inl TypeError,
             (reader3 None (PyFinite 1))\<lparr>cap := Some ((clip3 (PyFinite 1))\<lparr>clip_opened := False\<rparr>)\<rparr>,
             W3) \<and>
            trace W3 = [CVideoCapture ''a.mp4''] @ CRelease # es) \<and>
   (\<exists>frames r' W'. VideoReader_extract_frames (clip_backend (\<lambda>p. clip3 (PyFinite 1)))
                     (reader3 (Some (PyFinite 2)) (PyFinite 1))
                     (world0\<lparr>trace := [CVideoCapture ''a.mp4'']\<rparr>) = (Inr frames, r', W') \<and>
      (\<exists>h'. cap r' = Some (h'\<lparr>clip_opened := False\<rparr>)) \<and> (\<exists>tr. trace W' = tr @ [CRelease]))"
proof -
  let ?B = "clip_backend (\<lambda>p. clip3 (PyFinite 1))"
  let ?W1 = "world0\<lparr>trace := [CVideoCapture ''a.mp4'']\<rparr>"
  have e1: "VideoReader_enter ?B (reader3 None (PyFinite 1)) world0 = (reader3 None (PyFinite 1), ?W1)"
    by (simp add: VideoReader_enter_def demo_defs)
  have b1: "VideoReader_extract_frames ?B (reader3 None (PyFinite 1)) ?W1
              = (Inl TypeError, reader3 None (PyFinite 1), ?W1)"
    by (simp add: VideoReader_extract_frames_def VideoReader_get_steps_def reader3_def)
  have c1: "cap (reader3 None (PyFinite 1)) = Some (clip3 (PyFinite 1))"
    by (simp add: reader3_def)
  have e2: "VideoReader_enter ?B (reader3 (Some (PyFinite 2)) (PyFinite 1)) world0
              = (reader3 (Some (PyFinite 2)) (PyFinite 1), ?W1)"
    by (simp add: VideoReader_enter_def demo_defs)
  obtain frames r' W' where b2:
    "VideoReader_extract_frames ?B (reader3 (Some (PyFinite 2)) (PyFinite 1)) ?W1 = (Inr frames, r', W')"
    by (simp add: reader_defs demo_defs Let_def eval_nat_numeral)
  have c2: "cap r' = Some ((clip3 (PyFinite 1))\<lparr>clip_pos := 3, clip_opened := False\<rparr>)"
    using b2 by (auto simp: reader_defs demo_defs Let_def eval_nat_numeral)
  have rel: "b_release ?B = (\<lambda>c. c\<lparr>clip_opened := False\<rparr>)" by (simp add: clip_backend_def)
  have t1: "trace ?W1 = [CVideoCapture ''a.mp4'']" by simp
  from session_releases_and_surfaces [where body = "VideoReader_extract_frames ?B", OF e1 b1 c1]
  have p1: "\<exists>W3 es. with_VideoReader ?B (reader3 None (PyFinite 1)) (VideoReader_extract_frames ?B) world0 =
            (Inl TypeError,
             (reader3 None (PyFinite 1))\<lparr>cap := Some ((clip3 (PyFinite 1))\<lparr>clip_opened := False\<rparr>)\<rparr>,
             W3) \<and>
            trace W3 = [CVideoCapture ''a.mp4''] @ CRelease # es"
    unfolding rel t1 by auto
  from session_releases_and_surfaces [where body = "VideoReader_extract_frames ?B", OF e2 b2 c2]
  have p2: "(\<exists>h'. cap r' = Some (h'\<lparr>clip_opened := False\<rparr>)) \<and> (\<exists>tr. trace W' = tr @ [CRelease])"
    using b2 unfolding rel by blast
  show ?thesis using p1 p2 b2 by blast
qed

section \<open>Saving frames (C9)\<close>





















lemma os_mkdir_exists: "is_dir p W \<Longrightarrow> os_mkdir p W = Inl FileExistsError"
  by (simp add: os_mkdir_def)









section \<open>The constructor of the collection (C10)\<close>

text \<open>
  C10. Constructed from one path, the collection holds the one-element list of that
  path, as when constructed from that list; \<open>save_frames\<close> and \<open>extract_frames\<close> then
  do the same in both cases.
\<close>

theorem Video_init_single_path:
  "paths (Video_init (OnePath p)) = [p] \<and>
   Video_init (OnePath p) = Video_init (PathList [p]) \<and>
   Video_save_frames B (Video_init (OnePath p)) output_dir iv img_format W =
     Video_save_frames B (Video_init (PathList [p])) output_dir iv img_format W \<and>
   Video_extract_frames B (Video_init (OnePath p)) iv W =
     Video_extract_frames B (Video_init (PathList [p])) iv W"
  by (simp add: Video_init_def)

end
